theory Spec2Isabelle
  imports Complex_Main "HOL-Library.Char_ord" "HOL-Library.List_Lexorder" "HOL-Library.Sublist"
begin

section \<open>Telemetry layer of firestudio/backend/monitoring.py\<close>

text \<open>
  The module holds five process-wide Prometheus metrics, a structlog configuration and
  four functions: the decorator \<^verbatim>\<open>monitor_endpoint\<close>, the two recorders
  \<^verbatim>\<open>log_sensor_data\<close> and \<^verbatim>\<open>log_ml_prediction\<close>, and \<^verbatim>\<open>health_check\<close>.
  The embedding threads the process-wide state through every call and returns the
  outcome of the call as a sum: \<open>Inl e\<close> when the Python raises \<open>e\<close>, \<open>Inr v\<close> when it
  returns \<open>v\<close>.
\<close>

subsection \<open>Values, exceptions, results\<close>

text \<open>
  A raised object carries its class name and its \<^verbatim>\<open>str()\<close>. \<open>Exc\<close> is an instance of
  a class derived from \<^verbatim>\<open>Exception\<close>, the ones \<^verbatim>\<open>except Exception\<close> catches;
  \<open>BaseExc\<close> is one that derives from \<^verbatim>\<open>BaseException\<close> only
  (\<^verbatim>\<open>asyncio.CancelledError\<close>, \<^verbatim>\<open>KeyboardInterrupt\<close>, \<^verbatim>\<open>SystemExit\<close>), which that
  clause lets through.
\<close>

datatype exn = Exc (exn_class: string) (exn_str: string)
  | BaseExc (exn_class: string) (exn_str: string)

fun isinstance_Exception :: "exn \<Rightarrow> bool" where
  "isinstance_Exception (Exc c m) = True"
| "isinstance_Exception (BaseExc c m) = False"

definition ValueError :: "string \<Rightarrow> exn" where
  "ValueError m = Exc ''ValueError'' m"

type_synonym 'a result = "exn + 'a"

text \<open>
  The values the module passes as log fields: strings and floats. The floats are clock
  readings and their differences; they are taken as exact reals, rounding is not
  modelled.
\<close>

datatype pyval = Str string | Num real

subsection \<open>Metrics (lines 8 to 12)\<close>

datatype metric_type = Counter | Histogram | Gauge

record metric =
  metric_name :: string
  metric_kind :: metric_type
  documentation :: string
  labelnames :: "string list"

definition REQUEST_COUNT :: metric where
  "REQUEST_COUNT = \<lparr>metric_name = ''agriassist_requests_total'', metric_kind = Counter,
     documentation = ''Total requests'', labelnames = [''method'', ''endpoint'']\<rparr>"

definition REQUEST_DURATION :: metric where
  "REQUEST_DURATION = \<lparr>metric_name = ''agriassist_request_duration_seconds'',
     metric_kind = Histogram, documentation = ''Request duration'', labelnames = []\<rparr>"

definition ACTIVE_CONNECTIONS :: metric where
  "ACTIVE_CONNECTIONS = \<lparr>metric_name = ''agriassist_active_connections'',
     metric_kind = Gauge, documentation = ''Active connections'', labelnames = []\<rparr>"

definition SENSOR_DATA_COUNT :: metric where
  "SENSOR_DATA_COUNT = \<lparr>metric_name = ''agriassist_sensor_data_total'',
     metric_kind = Counter, documentation = ''Total sensor data points'', labelnames = []\<rparr>"

definition MODEL_PREDICTIONS :: metric where
  "MODEL_PREDICTIONS = \<lparr>metric_name = ''agriassist_model_predictions_total'',
     metric_kind = Counter, documentation = ''ML model predictions'',
     labelnames = [''model_type'']\<rparr>"

text \<open>
  \<^verbatim>\<open>metric.labels(**labelkwargs)\<close> is a call into prometheus_client, which is not part
  of this repository. Its behaviour, as the library has it: a metric constructed without
  label names refuses \<^verbatim>\<open>labels\<close> with a \<^verbatim>\<open>ValueError\<close>; keyword labels whose sorted
  names differ from the declared ones are refused with a \<^verbatim>\<open>ValueError\<close>; otherwise
  the child is addressed by the label values, in the declared order. The child is
  represented by that tuple of values.
\<close>

definition labelvalue :: "(string \<times> string) list \<Rightarrow> string \<Rightarrow> string" where
  "labelvalue labelkwargs l = (case map_of labelkwargs l of Some v \<Rightarrow> v | None \<Rightarrow> [])"

definition labels :: "metric \<Rightarrow> (string \<times> string) list \<Rightarrow> string list result" where
  "labels m labelkwargs =
     (if labelnames m = [] then
        Inl (ValueError ''No label names were set when constructing'')
      else if sort (map fst labelkwargs) \<noteq> sort (labelnames m) then
        Inl (ValueError ''Incorrect label names'')
      else Inr (map (labelvalue labelkwargs) (labelnames m)))"

text \<open>The values of a counter: one count per child. \<^verbatim>\<open>inc()\<close> adds one.\<close>

type_synonym counter_values = "string list \<Rightarrow> nat"

definition inc :: "string list \<Rightarrow> counter_values \<Rightarrow> counter_values" where
  "inc child c = c(child := c child + 1)"

subsection \<open>Process state and environment\<close>

text \<open>
  A logger call \<^verbatim>\<open>logger.info(event, **kw)\<close> or \<^verbatim>\<open>logger.error(event, **kw)\<close> hands
  one record to the structlog pipeline: the method name, the event text and the keyword
  fields in call order.
\<close>

datatype log_level = DEBUG | INFO | WARNING | ERROR

record log_call =
  level :: log_level
  event :: string
  event_kw :: "(string \<times> pyval) list"

text \<open>
  The state the module's functions touch: how many times \<^verbatim>\<open>time.time()\<close> has been
  read, the counts of the three counters, the observations of the histogram in order,
  and the records the logger accepted, in order.
\<close>

record telemetry =
  reads :: nat
  request_count :: counter_values
  sensor_data_count :: counter_values
  model_predictions :: counter_values
  request_duration :: "real list"
  emitted :: "log_call list"

text \<open>
  What the module cannot control: \<open>now k\<close> is the value of the \<open>k\<close>-th reading of
  \<^verbatim>\<open>time.time()\<close> in the process (the system clock, which may be set back between
  two readings), and \<open>log_fault r\<close> is the exception the logger raises when handed
  the record \<open>r\<close>, if it raises.
\<close>

record env =
  now :: "nat \<Rightarrow> real"
  log_fault :: "log_call \<Rightarrow> exn option"

definition time_time :: "env \<Rightarrow> telemetry \<Rightarrow> real \<times> telemetry" where
  "time_time env s = (now env (reads s), s\<lparr>reads := Suc (reads s)\<rparr>)"

definition logger_call ::
  "env \<Rightarrow> log_level \<Rightarrow> string \<Rightarrow> (string \<times> pyval) list \<Rightarrow> telemetry \<Rightarrow> unit result \<times> telemetry" where
  "logger_call env lvl ev kw s =
     (let r = \<lparr>level = lvl, event = ev, event_kw = kw\<rparr>
      in case log_fault env r of
           Some e \<Rightarrow> (Inl e, s)
         | None \<Rightarrow> (Inr (), s\<lparr>emitted := emitted s @ [r]\<rparr>))"

definition logger_info ::
  "env \<Rightarrow> string \<Rightarrow> (string \<times> pyval) list \<Rightarrow> telemetry \<Rightarrow> unit result \<times> telemetry" where
  "logger_info env = logger_call env INFO"

definition logger_error ::
  "env \<Rightarrow> string \<Rightarrow> (string \<times> pyval) list \<Rightarrow> telemetry \<Rightarrow> unit result \<times> telemetry" where
  "logger_error env = logger_call env ERROR"

definition observe :: "real \<Rightarrow> telemetry \<Rightarrow> telemetry" where
  "observe amount s = s\<lparr>request_duration := request_duration s @ [amount]\<rparr>"

subsection \<open>monitor_endpoint (lines 35 to 65)\<close>

text \<open>
  The wrapped operation \<^verbatim>\<open>func(*args, **kwargs)\<close> is awaited: whatever it and the
  tasks interleaved with it do to the process state is one state transformer, which
  returns a value or raises.
\<close>

type_synonym 'r operation = "telemetry \<Rightarrow> 'r result \<times> telemetry"

definition success_record :: "string \<Rightarrow> real \<Rightarrow> log_call" where
  "success_record endpoint_name d =
     \<lparr>level = INFO, event = ''API request completed'',
      event_kw = [(''endpoint'', Str endpoint_name), (''duration'', Num d),
                (''status'', Str ''success'')]\<rparr>"

definition error_record :: "string \<Rightarrow> real \<Rightarrow> exn \<Rightarrow> log_call" where
  "error_record endpoint_name d e =
     \<lparr>level = ERROR, event = ''API request failed'',
      event_kw = [(''endpoint'', Str endpoint_name), (''duration'', Num d),
                (''error'', Str (exn_str e)), (''status'', Str ''error'')]\<rparr>"

text \<open>The body of \<^verbatim>\<open>try\<close> (lines 44 to 51).\<close>

definition try_body ::
  "env \<Rightarrow> string \<Rightarrow> real \<Rightarrow> 'r operation \<Rightarrow> telemetry \<Rightarrow> 'r result \<times> telemetry" where
  "try_body env endpoint_name start_time func s =
     (case func s of
        (Inl e, s1) \<Rightarrow> (Inl e, s1)
      | (Inr result, s1) \<Rightarrow>
          (let (t, s2) = time_time env s1
           in case logger_info env ''API request completed''
                     [(''endpoint'', Str endpoint_name), (''duration'', Num (t - start_time)),
                      (''status'', Str ''success'')] s2 of
                (Inl e, s3) \<Rightarrow> (Inl e, s3)
              | (Inr u, s3) \<Rightarrow> (Inr result, s3)))"

text \<open>The handler \<^verbatim>\<open>except Exception as e\<close> (lines 52 to 60).\<close>

definition except_body ::
  "env \<Rightarrow> string \<Rightarrow> real \<Rightarrow> exn \<Rightarrow> telemetry \<Rightarrow> 'r result \<times> telemetry" where
  "except_body env endpoint_name start_time e s =
     (let (t, s1) = time_time env s
      in case logger_error env ''API request failed''
                [(''endpoint'', Str endpoint_name), (''duration'', Num (t - start_time)),
                 (''error'', Str (exn_str e)), (''status'', Str ''error'')] s1 of
           (Inl e', s2) \<Rightarrow> (Inl e', s2)
         | (Inr u, s2) \<Rightarrow> (Inl e, s2))"

definition try_except ::
  "env \<Rightarrow> string \<Rightarrow> real \<Rightarrow> 'r operation \<Rightarrow> telemetry \<Rightarrow> 'r result \<times> telemetry" where
  "try_except env endpoint_name start_time func s =
     (case try_body env endpoint_name start_time func s of
        (Inr result, s1) \<Rightarrow> (Inr result, s1)
      | (Inl e, s1) \<Rightarrow>
          if isinstance_Exception e then except_body env endpoint_name start_time e s1
          else (Inl e, s1))"

text \<open>
  The wrapper (lines 39 to 62): the clock is read, the request counter is incremented,
  then the \<^verbatim>\<open>try\<close> statement runs and its \<^verbatim>\<open>finally\<close> clause observes the duration
  on the way out, whatever the outcome.
\<close>

definition monitor_endpoint ::
  "env \<Rightarrow> string \<Rightarrow> 'r operation \<Rightarrow> telemetry \<Rightarrow> 'r result \<times> telemetry" where
  "monitor_endpoint env endpoint_name func s =
     (let (start_time, s1) = time_time env s
      in case labels REQUEST_COUNT [(''method'', ''POST''), (''endpoint'', endpoint_name)] of
           Inl e \<Rightarrow> (Inl e, s1)
         | Inr child \<Rightarrow>
             (let s2 = s1\<lparr>request_count := inc child (request_count s1)\<rparr>;
                  (r, s3) = try_except env endpoint_name start_time func s2;
                  (t, s4) = time_time env s3
              in (r, observe (t - start_time) s4)))"

text \<open>
  The state in which the wrapped operation starts: one clock reading taken, the child
  \<^verbatim>\<open>(POST, endpoint_name)\<close> of the request counter one higher.
\<close>

definition entered :: "string \<Rightarrow> telemetry \<Rightarrow> telemetry" where
  "entered endpoint_name s =
     s\<lparr>reads := Suc (reads s),
       request_count := inc [''POST'', endpoint_name] (request_count s)\<rparr>"

subsection \<open>The domain event recorders (lines 67 to 85)\<close>

definition log_sensor_data ::
  "env \<Rightarrow> string \<Rightarrow> string \<Rightarrow> telemetry \<Rightarrow> unit result \<times> telemetry" where
  "log_sensor_data env device_id data_type s =
     (case labels SENSOR_DATA_COUNT [] of
        Inl e \<Rightarrow> (Inl e, s)
      | Inr child \<Rightarrow>
          (let s1 = s\<lparr>sensor_data_count := inc child (sensor_data_count s)\<rparr>;
               (t, s2) = time_time env s1
           in logger_info env ''Sensor data received''
                [(''device_id'', Str device_id), (''data_type'', Str data_type),
                 (''timestamp'', Num t)] s2))"

definition log_ml_prediction ::
  "env \<Rightarrow> string \<Rightarrow> real \<Rightarrow> telemetry \<Rightarrow> unit result \<times> telemetry" where
  "log_ml_prediction env model_type confidence s =
     (case labels MODEL_PREDICTIONS [(''model_type'', model_type)] of
        Inl e \<Rightarrow> (Inl e, s)
      | Inr child \<Rightarrow>
          (let s1 = s\<lparr>model_predictions := inc child (model_predictions s)\<rparr>;
               (t, s2) = time_time env s1
           in logger_info env ''ML prediction made''
                [(''model_type'', Str model_type), (''confidence'', Num confidence),
                 (''timestamp'', Num t)] s2))"

subsection \<open>health_check (lines 93 to 104)\<close>

record health =
  status :: string
  timestamp :: real
  version :: string
  services :: "(string \<times> string) list"

definition health_check :: "env \<Rightarrow> telemetry \<Rightarrow> health result \<times> telemetry" where
  "health_check env s =
     (let (t, s1) = time_time env s
      in (Inr \<lparr>status = ''healthy'', timestamp = t, version = ''1.0.0'',
               services = [(''database'', ''connected''), (''cache'', ''connected''),
                           (''external_apis'', ''connected'')]\<rparr>, s1))"

subsection \<open>Defining the metrics: the registry behind lines 8 to 12\<close>

text \<open>
  Constructing a metric registers it with the default registry of prometheus_client
  (library code, not part of this repository). The registry keeps the time series names
  its collectors claim: the metric's name, where a counter's name loses a trailing
  \<^verbatim>\<open>_total\<close>, followed by the suffixed names of its type. \<^verbatim>\<open>register\<close> raises
  \<^verbatim>\<open>ValueError\<close> when one of the names is already claimed, and claims them all
  otherwise. It looks at names only: not at the documentation, not at the label names.
\<close>

definition full_name :: "metric \<Rightarrow> string" where
  "full_name m =
     (if metric_kind m = Counter \<and> suffix ''_total'' (metric_name m)
      then take (length (metric_name m) - 6) (metric_name m)
      else metric_name m)"

fun type_suffixes :: "metric_type \<Rightarrow> string list" where
  "type_suffixes Counter = [''_total'', ''_created'']"
| "type_suffixes Histogram = [''_bucket'', ''_sum'', ''_count'', ''_created'']"
| "type_suffixes Gauge = []"

definition get_names :: "metric \<Rightarrow> string list" where
  "get_names m = full_name m # map (\<lambda>sfx. full_name m @ sfx) (type_suffixes (metric_kind m))"

definition register :: "metric \<Rightarrow> string list \<Rightarrow> string list result" where
  "register m names_to_collectors =
     (let names = get_names m;
          duplicates = filter (\<lambda>n. n \<in> set names_to_collectors) names
      in if duplicates \<noteq> [] then Inl (ValueError ''Duplicated timeseries in CollectorRegistry'')
         else Inr (names_to_collectors @ names))"

text \<open>The module's definitions run in order when it is imported; the first error ends the import.\<close>

fun register_all :: "metric list \<Rightarrow> string list \<Rightarrow> string list result" where
  "register_all [] reg = Inr reg"
| "register_all (m # ms) reg =
     (case register m reg of Inl e \<Rightarrow> Inl e | Inr reg' \<Rightarrow> register_all ms reg')"

definition module_metrics :: "metric list" where
  "module_metrics =
     [REQUEST_COUNT, REQUEST_DURATION, ACTIVE_CONNECTIONS, SENSOR_DATA_COUNT, MODEL_PREDICTIONS]"

subsection \<open>The structlog configuration (lines 15 to 31)\<close>

datatype processor =
    filter_by_level
  | add_logger_name
  | add_log_level
  | PositionalArgumentsFormatter
  | TimeStamper
  | StackInfoRenderer
  | format_exc_info
  | UnicodeDecoder
  | JSONRenderer

definition processors :: "processor list" where
  "processors =
     [filter_by_level, add_logger_name, add_log_level, PositionalArgumentsFormatter,
      TimeStamper, StackInfoRenderer, format_exc_info, UnicodeDecoder, JSONRenderer]"


text \<open>
  The rest of this subsection is structlog and the standard \<^verbatim>\<open>json\<close> module, library
  code that is not part of this repository, as the module configures it.

  While it runs through the processors a record is a dict, the event dict; the last
  processor turns it into a text. A dict keeps its keys in insertion order, and
  assigning to a key that is present replaces the value in place.
\<close>

type_synonym event_dict = "(string \<times> pyval) list"

datatype payload = Dict event_dict | Text string

fun setitem :: "string \<Rightarrow> pyval \<Rightarrow> event_dict \<Rightarrow> event_dict" where
  "setitem k v [] = [(k, v)]"
| "setitem k v ((k', v') # d) = (if k = k' then (k, v) # d else (k', v') # setitem k v d)"

text \<open>
  What the run of one record depends on outside the module: the effective level of the
  standard-library logger behind the structlog logger, that logger's name, the text
  \<^verbatim>\<open>TimeStamper(fmt="iso")\<close> makes of the current instant, how \<^verbatim>\<open>json.dumps\<close>
  writes a string and a float, and what a processor does with an event dict that has one
  of the keys reserved for it (\<^verbatim>\<open>_record\<close>, \<^verbatim>\<open>positional_args\<close>, \<^verbatim>\<open>stack_info\<close>,
  \<^verbatim>\<open>exc_info\<close>), none of which this module ever passes: it raises or returns an
  event dict.
\<close>

record logging_env =
  effective_level :: log_level
  logger_name :: string
  utc_iso :: string
  dumps_str :: "string \<Rightarrow> string"
  dumps_float :: "real \<Rightarrow> string"
  reserved :: "processor \<Rightarrow> event_dict \<Rightarrow> exn + event_dict"

fun levelno :: "log_level \<Rightarrow> nat" where
  "levelno DEBUG = 10"
| "levelno INFO = 20"
| "levelno WARNING = 30"
| "levelno ERROR = 40"

fun method_name :: "log_level \<Rightarrow> string" where
  "method_name DEBUG = ''debug''"
| "method_name INFO = ''info''"
| "method_name WARNING = ''warning''"
| "method_name ERROR = ''error''"

text \<open>
  \<^verbatim>\<open>json.dumps\<close> of a dict with the default separators: the members \<^verbatim>\<open>key: value\<close>
  in the order of the dict, separated by a comma and a space, between braces.
\<close>

fun dumps_value :: "logging_env \<Rightarrow> pyval \<Rightarrow> string" where
  "dumps_value le (Str s) = dumps_str le s"
| "dumps_value le (Num x) = dumps_float le x"

fun join :: "string \<Rightarrow> string list \<Rightarrow> string" where
  "join sep [] = []"
| "join sep [x] = x"
| "join sep (x # y # ys) = x @ sep @ join sep (y # ys)"

definition dumps_member :: "logging_env \<Rightarrow> string \<times> pyval \<Rightarrow> string" where
  "dumps_member le kv = dumps_str le (fst kv) @ '': '' @ dumps_value le (snd kv)"

definition dumps :: "logging_env \<Rightarrow> event_dict \<Rightarrow> string" where
  "dumps le d = ''{'' @ join '', '' (map (dumps_member le) d) @ ''}''"

text \<open>
  One processor applied to the record of a logger call at level \<open>lvl\<close>: it raises
  \<^verbatim>\<open>DropEvent\<close>, raises something else, or returns the next payload. A processor that
  works on the event dict raises when it is handed a text.
\<close>

datatype step = DropEvent | Failed exn | Next payload

definition reserved_step :: "logging_env \<Rightarrow> processor \<Rightarrow> event_dict \<Rightarrow> step" where
  "reserved_step le p d =
     (case reserved le p d of Inl e \<Rightarrow> Failed e | Inr d' \<Rightarrow> Next (Dict d'))"

definition not_a_dict :: step where
  "not_a_dict = Failed (Exc ''TypeError'' ''event dict expected'')"

fun run_processor :: "logging_env \<Rightarrow> log_level \<Rightarrow> processor \<Rightarrow> payload \<Rightarrow> step" where
  "run_processor le lvl filter_by_level pl =
     (if levelno (effective_level le) \<le> levelno lvl then Next pl else DropEvent)"
| "run_processor le lvl add_logger_name (Dict d) =
     (if ''_record'' \<in> set (map fst d) then reserved_step le add_logger_name d
      else Next (Dict (setitem ''logger'' (Str (logger_name le)) d)))"
| "run_processor le lvl add_log_level (Dict d) =
     Next (Dict (setitem ''level'' (Str (method_name lvl)) d))"
| "run_processor le lvl PositionalArgumentsFormatter (Dict d) =
     (if ''positional_args'' \<in> set (map fst d)
      then reserved_step le PositionalArgumentsFormatter d
      else Next (Dict d))"
| "run_processor le lvl TimeStamper (Dict d) =
     Next (Dict (setitem ''timestamp'' (Str (utc_iso le)) d))"
| "run_processor le lvl StackInfoRenderer (Dict d) =
     (if ''stack_info'' \<in> set (map fst d) then reserved_step le StackInfoRenderer d
      else Next (Dict d))"
| "run_processor le lvl format_exc_info (Dict d) =
     (if ''exc_info'' \<in> set (map fst d) then reserved_step le format_exc_info d
      else Next (Dict d))"
| "run_processor le lvl UnicodeDecoder (Dict d) = Next (Dict d)"
| "run_processor le lvl JSONRenderer (Dict d) = Next (Text (dumps le d))"
| "run_processor le lvl JSONRenderer (Text t) = Next (Text (dumps_str le t))"
| "run_processor le lvl p (Text t) = not_a_dict"

text \<open>
  The loop of the bound logger: the processors are called in list order, each one on
  what the one before returned; the first that raises ends the run. The run returns the
  processors it has called, in order, and how it ended.
\<close>

fun process_event ::
  "(processor \<Rightarrow> payload \<Rightarrow> step) \<Rightarrow> processor list \<Rightarrow> payload \<Rightarrow> processor list \<times> step" where
  "process_event sem [] pl = ([], Next pl)"
| "process_event sem (p # ps) pl =
     (case sem p pl of
        DropEvent \<Rightarrow> ([p], DropEvent)
      | Failed e \<Rightarrow> ([p], Failed e)
      | Next pl' \<Rightarrow> (case process_event sem ps pl' of (called, out) \<Rightarrow> (p # called, out)))"

text \<open>
  A logger call on the bound logger: the event dict is the keyword arguments with the
  event text assigned to the key \<^verbatim>\<open>event\<close>; the configured processors run over it; a
  dropped record is forgotten; a text is handed to the standard-library logger method
  of the same name, which is the sink: the texts it has been handed, with their levels.
\<close>

definition pipeline :: "logging_env \<Rightarrow> log_call \<Rightarrow> processor list \<times> step" where
  "pipeline le r =
     process_event (run_processor le (level r)) processors
       (Dict (setitem ''event'' (Str (event r)) (event_kw r)))"

type_synonym sink = "(log_level \<times> string) list"

definition bound_logger_call :: "logging_env \<Rightarrow> log_call \<Rightarrow> sink \<Rightarrow> unit result \<times> sink" where
  "bound_logger_call le r out =
     (case snd (pipeline le r) of
        DropEvent \<Rightarrow> (Inr (), out)
      | Failed e \<Rightarrow> (Inl e, out)
      | Next (Text t) \<Rightarrow> (Inr (), out @ [(level r, t)])
      | Next (Dict d) \<Rightarrow> (Inl (Exc ''TypeError'' ''message text expected''), out))"






subsection \<open>Concrete runs\<close>

text \<open>A fresh process, and three environments: a healthy one whose clock advances by one
  second per reading, one whose logger refuses every info record, and one whose clock is
  set back by a second after the first reading.\<close>

definition fresh :: telemetry where
  "fresh = \<lparr>reads = 0, request_count = (\<lambda>c. 0), sensor_data_count = (\<lambda>c. 0),
             model_predictions = (\<lambda>c. 0), request_duration = [], emitted = []\<rparr>"

definition healthy_env :: env where
  "healthy_env = \<lparr>now = (\<lambda>k. 100 + real k), log_fault = (\<lambda>r. None)\<rparr>"

definition info_sink_down :: env where
  "info_sink_down =
     \<lparr>now = (\<lambda>k. 100 + real k),
      log_fault = (\<lambda>r. if level r = INFO then Some (Exc ''OSError'' ''sink closed'') else None)\<rparr>"

definition clock_set_back :: env where
  "clock_set_back = \<lparr>now = (\<lambda>k. if k = 0 then 100 else 99), log_fault = (\<lambda>r. None)\<rparr>"

definition returning :: "'r \<Rightarrow> 'r operation" where
  "returning r s = (Inr r, s)"

definition raising :: "exn \<Rightarrow> 'r operation" where
  "raising e s = (Inl e, s)"

definition requests_gauge :: metric where
  "requests_gauge = \<lparr>metric_name = ''agriassist_requests_total'', metric_kind = Gauge,
     documentation = ''Total requests'', labelnames = []\<rparr>"

text \<open>
  Two more environments: a logger that refuses every record, and a logging setup at level
  \<^verbatim>\<open>INFO\<close> whose \<^verbatim>\<open>json.dumps\<close> is right on strings without characters to escape
  and on the float one.
\<close>

definition sink_down :: env where
  "sink_down =
     \<lparr>now = (\<lambda>k. 100 + real k),
      log_fault = (\<lambda>r. Some (Exc ''RuntimeError'' ''logging failed''))\<rparr>"



section \<open>Properties\<close>

subsection \<open>Shape of a wrapped run\<close>

lemma sort_request_labels: "sort [''method'', ''endpoint''] = [''endpoint'', ''method'']"
  by code_simp

lemma labels_REQUEST_COUNT:
  "labels REQUEST_COUNT [(''method'', m), (''endpoint'', n)] = Inr [m, n]"
  by (simp add: labels_def REQUEST_COUNT_def labelvalue_def sort_request_labels)

text \<open>
  With the label names of \<^verbatim>\<open>REQUEST_COUNT\<close> the call to \<^verbatim>\<open>labels\<close> at line 41 always
  finds its child, so a wrapped run is: enter, run the \<^verbatim>\<open>try\<close> statement, read the
  clock, observe.
\<close>

lemma monitor_endpoint_run:
  "monitor_endpoint env n func s =
     (case try_except env n (now env (reads s)) func (entered n s) of
        (r, s3) \<Rightarrow>
          (r, observe (now env (reads s3) - now env (reads s)) (s3\<lparr>reads := Suc (reads s3)\<rparr>)))"
  by (simp add: monitor_endpoint_def time_time_def labels_REQUEST_COUNT entered_def Let_def)

text \<open>The five ways through the \<^verbatim>\<open>try\<close> statement, by what the operation and the logger do.\<close>

lemma try_except_paths:
  "try_except env n st func s0 =
     (case func s0 of
        (Inl e, s1) \<Rightarrow>
          if isinstance_Exception e then
            (case log_fault env (error_record n (now env (reads s1) - st) e) of
               Some e' \<Rightarrow> (Inl e', s1\<lparr>reads := Suc (reads s1)\<rparr>)
             | None \<Rightarrow> (Inl e, s1\<lparr>reads := Suc (reads s1),
                          emitted := emitted s1 @ [error_record n (now env (reads s1) - st) e]\<rparr>))
          else (Inl e, s1)
      | (Inr r, s1) \<Rightarrow>
          (case log_fault env (success_record n (now env (reads s1) - st)) of
             None \<Rightarrow> (Inr r, s1\<lparr>reads := Suc (reads s1),
                        emitted := emitted s1 @ [success_record n (now env (reads s1) - st)]\<rparr>)
           | Some e \<Rightarrow>
               if isinstance_Exception e then
                 (case log_fault env (error_record n (now env (Suc (reads s1)) - st) e) of
                    Some e' \<Rightarrow> (Inl e', s1\<lparr>reads := Suc (Suc (reads s1))\<rparr>)
                  | None \<Rightarrow> (Inl e, s1\<lparr>reads := Suc (Suc (reads s1)),
                      emitted := emitted s1 @ [error_record n (now env (Suc (reads s1)) - st) e]\<rparr>))
               else (Inl e, s1\<lparr>reads := Suc (reads s1)\<rparr>)))"
proof (cases "func s0")
  case (Pair a s1)
  then show ?thesis
    by (cases a)
       (auto simp: try_except_def try_body_def except_body_def logger_info_def logger_error_def
          logger_call_def time_time_def success_record_def error_record_def Let_def
          split: option.splits)
qed

lemma try_except_keeps_durations:
  "request_duration (snd (try_except env n st func s0)) = request_duration (snd (func s0))"
  by (simp add: try_except_paths split: prod.splits sum.splits option.splits)

lemma try_except_keeps_counts:
  "request_count (snd (try_except env n st func s0)) = request_count (snd (func s0))"
  by (simp add: try_except_paths split: prod.splits sum.splits option.splits)

subsection \<open>The duration observation\<close>

text \<open>
  Claim C1. Every wrapped invocation records exactly one observation on the request
  duration histogram, whatever the exit path: the operation returns, the operation
  raises (an \<^verbatim>\<open>Exception\<close> or not), the success log or the error log raises. The
  histogram afterwards is the histogram as the operation left it followed by one value,
  the last clock reading of the run minus the reading taken at entry.
\<close>

theorem monitor_endpoint_observes_once:
  "request_duration (snd (monitor_endpoint env n func s)) =
     request_duration (snd (func (entered n s))) @
       [now env (reads (snd (monitor_endpoint env n func s)) - 1) - now env (reads s)]"
  using try_except_keeps_durations [of env n "now env (reads s)" func "entered n s"]
  by (cases "try_except env n (now env (reads s)) func (entered n s)")
     (simp add: monitor_endpoint_run observe_def)

text \<open>
  Claim C9, as stated, fails: \<^verbatim>\<open>time.time()\<close> follows the system clock. When the clock
  is set back by one second between entry and exit, the value observed is \<open>- 1\<close>.
\<close>

theorem clock_set_back_negative_duration:
  "request_duration (snd (monitor_endpoint clock_set_back ''upload'' (returning (7::nat)) fresh))
     = [- 1]"
  by (simp add: monitor_endpoint_run try_except_paths returning_def clock_set_back_def
      observe_def entered_def fresh_def)

text \<open>
  Claim C9, amended. The value observed is the clock reading taken on exit minus the
  reading taken at entry, and it is non-negative exactly when the exit reading is not
  below the entry reading.
\<close>

theorem observed_duration_is_clock_difference:
  "last (request_duration (snd (monitor_endpoint env n func s)))
      = now env (reads (snd (monitor_endpoint env n func s)) - 1) - now env (reads s)
   \<and> (0 \<le> last (request_duration (snd (monitor_endpoint env n func s)))
        \<longleftrightarrow> now env (reads s) \<le> now env (reads (snd (monitor_endpoint env n func s)) - 1))"
  by (cases "try_except env n (now env (reads s)) func (entered n s)")
     (simp add: monitor_endpoint_run observe_def)

subsection \<open>The request counter\<close>

text \<open>
  Claim C6. The child \<^verbatim>\<open>(POST, endpoint_name)\<close> of the request counter is one higher
  in the state the operation starts in; the operation is run in that state and in no
  other; and nothing after the operation touches the counter, so the increment is there
  whether the operation returns or raises.
\<close>

theorem monitor_endpoint_counts_attempt:
  "request_count (entered n s) =
     (request_count s)([''POST'', n] := request_count s [''POST'', n] + 1)
   \<and> monitor_endpoint env n func s = monitor_endpoint env n (\<lambda>_. func (entered n s)) s
   \<and> request_count (snd (monitor_endpoint env n func s)) =
       request_count (snd (func (entered n s)))"
proof (intro conjI)
  show "request_count (entered n s) =
     (request_count s)([''POST'', n] := request_count s [''POST'', n] + 1)"
    by (simp add: entered_def inc_def)
  show "monitor_endpoint env n func s = monitor_endpoint env n (\<lambda>_. func (entered n s)) s"
    by (simp add: monitor_endpoint_run try_except_paths)
  show "request_count (snd (monitor_endpoint env n func s)) =
       request_count (snd (func (entered n s)))"
    using try_except_keeps_counts [of env n "now env (reads s)" func "entered n s"]
    by (cases "try_except env n (now env (reads s)) func (entered n s)")
       (simp add: monitor_endpoint_run observe_def)
qed

subsection \<open>Normal return\<close>

text \<open>
  Claim C5, as stated, fails: the success log is inside the \<^verbatim>\<open>try\<close> block, so when
  the logger raises on it the result of the operation is lost. The operation returns 3;
  the logger refuses the info record; the wrapper raises the logger's \<^verbatim>\<open>OSError\<close>,
  and the only record logged is the error record of the handler.
\<close>

theorem success_log_failure_loses_result:
  "fst (monitor_endpoint info_sink_down ''predict'' (returning (3::nat)) fresh)
     = Inl (Exc ''OSError'' ''sink closed'')
   \<and> emitted (snd (monitor_endpoint info_sink_down ''predict'' (returning (3::nat)) fresh))
     = [\<lparr>level = ERROR, event = ''API request failed'',
         event_kw = [(''endpoint'', Str ''predict''), (''duration'', Num 2),
                     (''error'', Str ''sink closed''), (''status'', Str ''error'')]\<rparr>]"
  by (simp add: monitor_endpoint_run try_except_paths returning_def info_sink_down_def
      success_record_def error_record_def observe_def entered_def fresh_def)

text \<open>
  Claim C5, amended. When the operation returns \<open>r\<close>, the wrapper returns \<open>r\<close> exactly
  when the \<^verbatim>\<open>logger.info\<close> call returns, and then the records accepted by the logger
  have grown by exactly one: level info, the endpoint name, the duration (clock reading
  after the operation minus the reading at entry) and the status success. When
  \<^verbatim>\<open>logger.info\<close> raises, no info record is accepted; the handler's error record is,
  if what was raised is an \<^verbatim>\<open>Exception\<close> and \<^verbatim>\<open>logger.error\<close> returns.
\<close>

theorem monitor_endpoint_after_return_log:
  assumes "func (entered n s) = (Inr r, s')"
  shows "(fst (monitor_endpoint env n func s) = Inr r
          \<longleftrightarrow> log_fault env (success_record n (now env (reads s') - now env (reads s))) = None)
    \<and> emitted (snd (monitor_endpoint env n func s)) =
      (case log_fault env (success_record n (now env (reads s') - now env (reads s))) of
         None \<Rightarrow> emitted s' @ [success_record n (now env (reads s') - now env (reads s))]
       | Some e \<Rightarrow>
           if isinstance_Exception e
              \<and> log_fault env (error_record n (now env (Suc (reads s')) - now env (reads s)) e)
                  = None
           then emitted s' @ [error_record n (now env (Suc (reads s')) - now env (reads s)) e]
           else emitted s')"
  using assms
  by (auto simp: monitor_endpoint_run try_except_paths observe_def split: option.splits)

theorem monitor_endpoint_after_return_log_witness:
  "returning (7::nat) (entered ''upload'' fresh) = (Inr 7, entered ''upload'' fresh)
   \<and> log_fault healthy_env (success_record ''upload'' 1) = None
   \<and> fst (monitor_endpoint healthy_env ''upload'' (returning (7::nat)) fresh) = Inr 7
   \<and> emitted (snd (monitor_endpoint healthy_env ''upload'' (returning (7::nat)) fresh)) =
       [\<lparr>level = INFO, event = ''API request completed'',
         event_kw = [(''endpoint'', Str ''upload''), (''duration'', Num 1),
                     (''status'', Str ''success'')]\<rparr>]"
  using monitor_endpoint_after_return_log
    [of "returning (7::nat)" "''upload''" fresh 7 "entered ''upload'' fresh" healthy_env]
  by (simp add: returning_def healthy_env_def entered_def fresh_def success_record_def)

subsection \<open>Failure of the operation\<close>

text \<open>
  Claim C2, as stated, fails in two ways. When \<^verbatim>\<open>logger.error\<close> raises, the caller
  gets the logger's exception in place of the operation's: here the operation raises an
  \<^verbatim>\<open>OSError\<close> and the caller gets a \<^verbatim>\<open>RuntimeError\<close>. And what the operation
  raises outside \<^verbatim>\<open>Exception\<close> is not logged at all: here a cancelled operation, with
  a working logger, leaves no record.
\<close>

theorem failure_unlogged_or_replaced:
  "fst (monitor_endpoint sink_down ''upload''
          (raising (Exc ''OSError'' ''disk full'') :: nat operation) fresh)
     = Inl (Exc ''RuntimeError'' ''logging failed'')
   \<and> emitted (snd (monitor_endpoint healthy_env ''upload''
          (raising (BaseExc ''CancelledError'' []) :: nat operation) fresh)) = []"
  by (simp add: monitor_endpoint_run try_except_paths raising_def sink_down_def
      healthy_env_def observe_def entered_def fresh_def)

text \<open>
  Claim C2, amended. When the operation raises \<open>e\<close>: if \<open>e\<close> is an instance of
  \<^verbatim>\<open>Exception\<close> and the \<^verbatim>\<open>logger.error\<close> call returns, the records accepted by the
  logger have grown by exactly one (level error, the endpoint name, the duration,
  \<^verbatim>\<open>str(e)\<close> and the status error) and the wrapper raises \<open>e\<close> itself; if
  \<^verbatim>\<open>logger.error\<close> raises, no record is accepted and the wrapper raises what the
  logger raised; if \<open>e\<close> is not an instance of \<^verbatim>\<open>Exception\<close>, nothing is logged and
  the wrapper raises \<open>e\<close> itself.
\<close>

theorem monitor_endpoint_after_raise:
  assumes "func (entered n s) = (Inl e, s')"
  shows "fst (monitor_endpoint env n func s) =
      (if isinstance_Exception e then
         (case log_fault env (error_record n (now env (reads s') - now env (reads s)) e) of
            None \<Rightarrow> Inl e
          | Some e' \<Rightarrow> Inl e')
       else Inl e)
    \<and> emitted (snd (monitor_endpoint env n func s)) =
      (if isinstance_Exception e
          \<and> log_fault env (error_record n (now env (reads s') - now env (reads s)) e) = None
       then emitted s' @ [error_record n (now env (reads s') - now env (reads s)) e]
       else emitted s')"
  using assms
  by (simp add: monitor_endpoint_run try_except_paths observe_def split: option.splits)

theorem monitor_endpoint_after_raise_witness:
  "raising (Exc ''OSError'' ''disk full'') (entered ''upload'' fresh)
       = (Inl (Exc ''OSError'' ''disk full'') :: nat result, entered ''upload'' fresh)
   \<and> fst (monitor_endpoint healthy_env ''upload''
            (raising (Exc ''OSError'' ''disk full'') :: nat operation) fresh)
       = Inl (Exc ''OSError'' ''disk full'')
   \<and> emitted (snd (monitor_endpoint healthy_env ''upload''
            (raising (Exc ''OSError'' ''disk full'') :: nat operation) fresh)) =
       [\<lparr>level = ERROR, event = ''API request failed'',
         event_kw = [(''endpoint'', Str ''upload''), (''duration'', Num 1),
                     (''error'', Str ''disk full''), (''status'', Str ''error'')]\<rparr>]"
  using monitor_endpoint_after_raise
    [of "raising (Exc ''OSError'' ''disk full'') :: nat operation" "''upload''" fresh
      "Exc ''OSError'' ''disk full''" "entered ''upload'' fresh" healthy_env]
  by (simp add: raising_def healthy_env_def entered_def fresh_def error_record_def)

text \<open>
  What the handler does not catch (a cancellation, an interpreter exit) passes through
  with no log record; the observation of claim C1 is still made.
\<close>

lemma monitor_endpoint_not_an_Exception:
  assumes "func (entered n s) = (Inl (BaseExc c m), s')"
  shows "fst (monitor_endpoint env n func s) = Inl (BaseExc c m)
    \<and> emitted (snd (monitor_endpoint env n func s)) = emitted s'"
  using assms by (simp add: monitor_endpoint_run try_except_paths observe_def)

subsection \<open>Failure of the logger\<close>

text \<open>
  Claim C3, as stated, fails: nothing in the wrapper contains an exception raised by a
  logger call. The operation returns 7; the logger refuses the success record with an
  \<^verbatim>\<open>OSError\<close>; the caller of the wrapper gets that \<^verbatim>\<open>OSError\<close>.
\<close>

theorem logger_failure_reaches_caller:
  "fst (monitor_endpoint info_sink_down ''upload'' (returning (7::nat)) fresh)
     = Inl (Exc ''OSError'' ''sink closed'')"
  by (simp add: monitor_endpoint_run try_except_paths returning_def info_sink_down_def
      success_record_def error_record_def)

text \<open>
  Claim C3, amended. The metric updates of the wrapper never raise. When the operation
  returns \<open>r\<close>, the caller gets \<open>r\<close> exactly when the logger accepts the success record.
  When the logger raises \<open>e\<close> instead, the caller gets an exception: \<open>e\<close> itself when it
  is not an \<^verbatim>\<open>Exception\<close>; otherwise the handler tries to log \<open>e\<close> as an error, and
  the caller gets \<open>e\<close>, or what that second logger call raised.
\<close>

theorem monitor_endpoint_outcome_after_return:
  assumes "func (entered n s) = (Inr r, s')"
  shows "fst (monitor_endpoint env n func s) =
    (case log_fault env (success_record n (now env (reads s') - now env (reads s))) of
       None \<Rightarrow> Inr r
     | Some e \<Rightarrow>
         if isinstance_Exception e then
           (case log_fault env (error_record n (now env (Suc (reads s')) - now env (reads s)) e) of
              None \<Rightarrow> Inl e
            | Some e' \<Rightarrow> Inl e')
         else Inl e)"
  using assms by (simp add: monitor_endpoint_run try_except_paths split: option.splits)

theorem monitor_endpoint_outcome_after_return_witness:
  "returning (7::nat) (entered ''upload'' fresh) = (Inr 7, entered ''upload'' fresh)
   \<and> fst (monitor_endpoint healthy_env ''upload'' (returning (7::nat)) fresh) = Inr 7"
  using monitor_endpoint_outcome_after_return
    [of "returning (7::nat)" "''upload''" fresh 7 "entered ''upload'' fresh" healthy_env]
  by (simp add: returning_def healthy_env_def)

subsection \<open>The recorders\<close>

text \<open>
  Claim C4 does not hold of \<^verbatim>\<open>log_sensor_data\<close>. The counter of line 11 is declared
  without label names, and line 69 asks it for \<^verbatim>\<open>labels()\<close>: the call raises
  \<^verbatim>\<open>ValueError\<close>, and the recorder ends there, with no counter incremented and no
  record logged. Here for the device \<^verbatim>\<open>sensor-1\<close> and the data type
  \<^verbatim>\<open>temperature\<close>, in a fresh process with a working logger.
\<close>

theorem log_sensor_data_raises:
  "log_sensor_data healthy_env ''sensor-1'' ''temperature'' fresh
     = (Inl (ValueError ''No label names were set when constructing''), fresh)"
  by (simp add: log_sensor_data_def labels_def SENSOR_DATA_COUNT_def)

text \<open>It is so for every input, in every state.\<close>

lemma sensor_recorder_never_records:
  "log_sensor_data env device_id data_type s
     = (Inl (ValueError ''No label names were set when constructing''), s)"
  by (simp add: log_sensor_data_def labels_def SENSOR_DATA_COUNT_def)

text \<open>
  The sibling \<^verbatim>\<open>log_ml_prediction\<close> does what the claim says: its counter declares the
  label \<^verbatim>\<open>model_type\<close>, the child of the given model type goes up by one, and one
  info record with the two arguments and a timestamp is logged.
\<close>

lemma prediction_recorder_records:
  assumes "log_fault env \<lparr>level = INFO, event = ''ML prediction made'',
        event_kw = [(''model_type'', Str model_type), (''confidence'', Num confidence),
                    (''timestamp'', Num (now env (reads s)))]\<rparr> = None"
  shows "log_ml_prediction env model_type confidence s =
     (Inr (), s\<lparr>reads := Suc (reads s),
               model_predictions :=
                 (model_predictions s)([model_type] := model_predictions s [model_type] + 1),
               emitted := emitted s @ [\<lparr>level = INFO, event = ''ML prediction made'',
                 event_kw = [(''model_type'', Str model_type), (''confidence'', Num confidence),
                             (''timestamp'', Num (now env (reads s)))]\<rparr>]\<rparr>)"
  using assms
  by (simp add: log_ml_prediction_def labels_def MODEL_PREDICTIONS_def labelvalue_def
      inc_def time_time_def logger_info_def logger_call_def)

subsection \<open>The health check\<close>

text \<open>
  Claim C10. \<^verbatim>\<open>health_check\<close> always returns, and what it returns has the status
  \<^verbatim>\<open>healthy\<close>, the version \<^verbatim>\<open>1.0.0\<close> and the three services \<^verbatim>\<open>database\<close>,
  \<^verbatim>\<open>cache\<close> and \<^verbatim>\<open>external_apis\<close>, each \<^verbatim>\<open>connected\<close>; the timestamp is the
  clock reading. Two calls, in whatever environments and states, return records that
  agree once their timestamps are set equal.
\<close>

theorem health_check_constant:
  "fst (health_check env s) =
      Inr \<lparr>status = ''healthy'', timestamp = now env (reads s), version = ''1.0.0'',
           services = [(''database'', ''connected''), (''cache'', ''connected''),
                       (''external_apis'', ''connected'')]\<rparr>
   \<and> map_sum id (timestamp_update (\<lambda>t. 0)) (fst (health_check env s))
       = map_sum id (timestamp_update (\<lambda>t. 0)) (fst (health_check env' s'))"
  by (simp add: health_check_def time_time_def)

subsection \<open>Defining a metric twice\<close>

lemma strip_total: "suffix ''_total'' n \<Longrightarrow> take (length n - 6) n @ ''_total'' = n"
  by (auto simp: suffix_def)

lemma metric_name_claimed: "metric_name m \<in> set (get_names m)"
  using strip_total [of "metric_name m"]
  by (auto simp: get_names_def full_name_def)

lemma register_claims: "register m reg = Inr reg' \<Longrightarrow> set (get_names m) \<subseteq> set reg'"
  by (auto simp: register_def Let_def split: if_splits)

lemma register_duplicate:
  "n \<in> set (get_names m) \<Longrightarrow> n \<in> set reg \<Longrightarrow>
   register m reg = Inl (ValueError ''Duplicated timeseries in CollectorRegistry'')"
  by (auto simp: register_def Let_def filter_empty_conv)

lemma names_REQUEST_COUNT:
  "get_names REQUEST_COUNT =
     [''agriassist_requests'', ''agriassist_requests_total'', ''agriassist_requests_created'']"
  by (simp add: get_names_def full_name_def REQUEST_COUNT_def suffix_to_prefix)

text \<open>Importing the module once defines the five metrics without an error.\<close>

lemma module_import_registers:
  "register_all module_metrics [] =
     Inr [''agriassist_requests'', ''agriassist_requests_total'', ''agriassist_requests_created'',
          ''agriassist_request_duration_seconds'', ''agriassist_request_duration_seconds_bucket'',
          ''agriassist_request_duration_seconds_sum'', ''agriassist_request_duration_seconds_count'',
          ''agriassist_request_duration_seconds_created'',
          ''agriassist_active_connections'',
          ''agriassist_sensor_data'', ''agriassist_sensor_data_total'',
          ''agriassist_sensor_data_created'',
          ''agriassist_model_predictions'', ''agriassist_model_predictions_total'',
          ''agriassist_model_predictions_created'']"
  by (simp add: module_metrics_def register_def get_names_def full_name_def REQUEST_COUNT_def
      REQUEST_DURATION_def ACTIVE_CONNECTIONS_def SENSOR_DATA_COUNT_def MODEL_PREDICTIONS_def
      suffix_to_prefix)

text \<open>
  Claim C7, as stated, fails in its first half: the definition of line 8, run a second
  time with the same name, type, documentation and label names, is not a no-op. The
  registry refuses it.
\<close>

theorem second_identical_definition_fails:
  "register REQUEST_COUNT [] =
     Inr [''agriassist_requests'', ''agriassist_requests_total'', ''agriassist_requests_created'']
   \<and> register REQUEST_COUNT
       [''agriassist_requests'', ''agriassist_requests_total'', ''agriassist_requests_created'']
     = Inl (ValueError ''Duplicated timeseries in CollectorRegistry'')"
  by (simp add: register_def names_REQUEST_COUNT)

text \<open>
  Claim C7, amended. Once a metric is registered, defining a metric under the same name
  fails with the registry's duplicate error, whatever the type, documentation and label
  names of the second definition: identical or different.
\<close>

theorem redefinition_refused:
  assumes "register m0 reg0 = Inr reg1" and "metric_name m = metric_name m0"
  shows "register m reg1 = Inl (ValueError ''Duplicated timeseries in CollectorRegistry'')"
proof -
  have "metric_name m0 \<in> set reg1"
    using register_claims [OF assms(1)] metric_name_claimed [of m0] by blast
  then have "metric_name m \<in> set reg1"
    using assms(2) by simp
  then show ?thesis
    using metric_name_claimed [of m] register_duplicate by blast
qed

theorem redefinition_refused_witness:
  "register REQUEST_COUNT [] =
     Inr [''agriassist_requests'', ''agriassist_requests_total'', ''agriassist_requests_created'']
   \<and> metric_name requests_gauge = metric_name REQUEST_COUNT
   \<and> register requests_gauge
       [''agriassist_requests'', ''agriassist_requests_total'', ''agriassist_requests_created'']
     = Inl (ValueError ''Duplicated timeseries in CollectorRegistry'')"
proof -
  have r: "register REQUEST_COUNT [] =
     Inr [''agriassist_requests'', ''agriassist_requests_total'', ''agriassist_requests_created'']"
    by (simp add: register_def names_REQUEST_COUNT)
  have n: "metric_name requests_gauge = metric_name REQUEST_COUNT"
    by (simp add: requests_gauge_def REQUEST_COUNT_def)
  show ?thesis
    using r n redefinition_refused [OF r n] by simp
qed

subsection \<open>The log pipeline\<close>





text \<open>
  A record below the effective level is dropped by the first processor: no other
  processor runs and nothing reaches the sink.
\<close>

lemma pipeline_dropped:
  assumes "levelno (level r) < levelno (effective_level le)"
  shows "pipeline le r = ([filter_by_level], DropEvent)
    \<and> bound_logger_call le r out = (Inr (), out)"
  using assms by (simp add: bound_logger_call_def pipeline_def processors_def)





end
